theory Spec2Isabelle
  imports Main "HOL-Library.Word"
begin

section \<open>The webhook receiver of scripts/webhook.py\<close>

text \<open>
  The script is one Flask handler, \<^verbatim>\<open>response\<close>, bound to
  \<^verbatim>\<open>POST /trigger-benchmark\<close>. The handler reads the JSON
  payload, compares its \<^verbatim>\<open>ref\<close> with \<^verbatim>\<open>refs/heads/main\<close> and, on a match,
  calls \<^verbatim>\<open>subprocess.run\<close> three times: fetch, checkout, build.

  What lies outside the script is a parameter of the model: the value or exception that
  \<^verbatim>\<open>request.get_json()\<close> gives, what \<^verbatim>\<open>subprocess.run\<close> does with a
  command in the current state of the machine, and two builtins of the Python runtime
  (formatting a value that is not a \<^verbatim>\<open>str\<close> inside an f-string, and
  \<^verbatim>\<open>str(e)\<close> of an exception object).
\<close>

subsection \<open>Python values that a JSON document decodes to\<close>

text \<open>
  A float is its IEEE 754 binary64 bit pattern; the handler never computes with one.
  A \<^verbatim>\<open>dict\<close> is the list of its items; a key is looked up with \<open>map_of\<close>.
  A \<^verbatim>\<open>str\<close> is a \<open>string\<close>, the bytes of its UTF-8 encoding.
\<close>

type_synonym py_float = "64 word"

datatype json =
    JNull
  | JBool bool
  | JInt int
  | JFloat py_float
  | JString string
  | JArray "json list"
  | JObject "(string \<times> json) list"

subsection \<open>Calls of subprocess.run and the exceptions in play\<close>

text \<open>
  The first argument of \<^verbatim>\<open>subprocess.run\<close> is a list of Python values or one
  command line; \<open>check\<close> and \<open>shell\<close> are the keyword arguments of the same names
  (\<open>shell\<close> is False when the call does not pass it).
\<close>

datatype args = Argv "json list" | Command string

record call =
  args :: args
  check :: bool
  shell :: bool

datatype exn =
    KeyError string
      \<comment> \<open>\<^verbatim>\<open>d[k]\<close> on a dict without the key \<open>k\<close>\<close>
  | TypeError
      \<comment> \<open>\<^verbatim>\<open>v[k]\<close> on a value that is not a dict (None, bool, int, float, str, list)\<close>
  | CalledProcessError int call
      \<comment> \<open>\<^verbatim>\<open>subprocess.run(..., check=True)\<close>: the exit status, not zero, and the command\<close>
  | OSError string
      \<comment> \<open>\<^verbatim>\<open>subprocess.run\<close>: the command could not be launched\<close>
  | Exception string
      \<comment> \<open>any other instance of \<^verbatim>\<open>Exception\<close>, by a tag\<close>
  | BaseException string
      \<comment> \<open>an exception that is not an instance of \<^verbatim>\<open>Exception\<close>:
          KeyboardInterrupt, SystemExit\<close>

text \<open>\<^verbatim>\<open>isinstance(e, Exception)\<close>: what \<^verbatim>\<open>except Exception\<close> catches.\<close>

fun is_Exception :: "exn \<Rightarrow> bool" where
  "is_Exception (BaseException _) = False"
| "is_Exception _ = True"

subsection \<open>The request, the response, the runtime, the state\<close>

text \<open>
  \<open>get_json\<close> is the result of \<^verbatim>\<open>request.get_json()\<close>: the decoded payload, or the
  exception Flask raises when the body cannot be decoded.
\<close>

record request =
  get_json :: "exn + json"

text \<open>
  \<open>Empty\<close> is the body of \<^verbatim>\<open>Response(status=200)\<close>; \<open>Json d\<close> is the body
  \<^verbatim>\<open>jsonify(d)\<close> makes of the dict \<open>d\<close>.
\<close>

datatype body = Empty | Json "(string \<times> json) list"

record http_response =
  status :: nat
  body :: body

record 'w python =
  subprocess_run :: "call \<Rightarrow> 'w \<Rightarrow> exn option \<times> 'w"
    \<comment> \<open>\<^verbatim>\<open>subprocess.run\<close> in the world \<open>'w\<close> (working tree, remotes, file system):
        \<open>None\<close> when it returns, \<open>Some e\<close> when it raises \<open>e\<close> (a failed command, or
        arguments it rejects), and the world after\<close>
  format_value :: "json \<Rightarrow> string"
    \<comment> \<open>\<^verbatim>\<open>format(v, '')\<close> of a value that is not a \<^verbatim>\<open>str\<close>\<close>
  str_exn :: "exn \<Rightarrow> string"
    \<comment> \<open>\<^verbatim>\<open>str(e)\<close>\<close>

record 'w state =
  world :: 'w
  calls :: "call list"
    \<comment> \<open>the calls of \<^verbatim>\<open>subprocess.run\<close> so far, oldest first\<close>
  stdout :: "string list"
    \<comment> \<open>the lines printed so far, oldest first\<close>

subsection \<open>The operations the handler uses\<close>

text \<open>\<^verbatim>\<open>v[k]\<close> with a \<^verbatim>\<open>str\<close> key.\<close>

fun getitem :: "json \<Rightarrow> string \<Rightarrow> exn + json" where
  "getitem (JObject d) k = (case map_of d k of None \<Rightarrow> Inl (KeyError k) | Some v \<Rightarrow> Inr v)"
| "getitem _ k = Inl TypeError"

text \<open>\<^verbatim>\<open>{v}\<close> inside an f-string: a \<^verbatim>\<open>str\<close> is inserted as it is.\<close>

definition fstring :: "'w python \<Rightarrow> json \<Rightarrow> string" where
  "fstring py v = (case v of JString s \<Rightarrow> s | _ \<Rightarrow> format_value py v)"

text \<open>\<^verbatim>\<open>print(line)\<close>: the line is added to what was printed.\<close>

definition py_print :: "string \<Rightarrow> 'w state \<Rightarrow> 'w state" where
  "py_print line s = s\<lparr>stdout := stdout s @ [line]\<rparr>"

text \<open>One call of \<^verbatim>\<open>subprocess.run\<close>, recorded in \<open>calls\<close> whether it raises or not.\<close>

definition invoke :: "'w python \<Rightarrow> call \<Rightarrow> 'w state \<Rightarrow> exn option \<times> 'w state" where
  "invoke py c s =
     (case subprocess_run py c (world s) of
        (r, w) \<Rightarrow> (r, s\<lparr>world := w, calls := calls s @ [c]\<rparr>))"

text \<open>\<^verbatim>\<open>jsonify(d), code\<close>\<close>

definition jsonify :: "(string \<times> json) list \<Rightarrow> nat \<Rightarrow> http_response" where
  "jsonify d code = \<lparr>status = code, body = Json d\<rparr>"

subsection \<open>The three commands\<close>

text \<open>\<^verbatim>\<open>subprocess.run(['git', 'fetch', '--all'], check=True)\<close>\<close>

definition git_fetch :: call where
  "git_fetch =
     \<lparr>args = Argv [JString ''git'', JString ''fetch'', JString ''--all''],
      check = True, shell = False\<rparr>"

text \<open>\<^verbatim>\<open>subprocess.run(['git', 'checkout', data['after']], check=True)\<close>\<close>

definition git_checkout :: "json \<Rightarrow> call" where
  "git_checkout after =
     \<lparr>args = Argv [JString ''git'', JString ''checkout'', after],
      check = True, shell = False\<rparr>"

text \<open>
  \<^verbatim>\<open>subprocess.run(f"/home/ubuntu/zig-linux-x86_64-0.13.0/zig build -Doptimize=ReleaseSafe benchmark -- gossip --telemetry={data['after']}", check=True, shell=True)\<close>,
  with the text of \<^verbatim>\<open>{data['after']}\<close> as the argument.
\<close>

definition zig_build :: "string \<Rightarrow> call" where
  "zig_build after =
     \<lparr>args = Command (''/home/ubuntu/zig-linux-x86_64-0.13.0/zig build -Doptimize=ReleaseSafe benchmark -- gossip --telemetry='' @ after),
      check = True, shell = True\<rparr>"

subsection \<open>The handler\<close>

text \<open>
  The \<^verbatim>\<open>try\<close> statement. Its body reads \<^verbatim>\<open>data['after']\<close> and runs the build;
  \<^verbatim>\<open>except Exception as e\<close> prints and returns the 500 response. \<open>Inr None\<close> is
  falling through to the statement after the \<^verbatim>\<open>if\<close>, \<open>Inr (Some r)\<close> is
  \<^verbatim>\<open>return r\<close>, \<open>Inl e\<close> is the exception \<open>e\<close> leaving the handler.
\<close>

definition try_build ::
  "'w python \<Rightarrow> json \<Rightarrow> 'w state \<Rightarrow> (exn + http_response option) \<times> 'w state" where
  "try_build py data s =
     (case (case getitem data ''after'' of
              Inl e \<Rightarrow> (Some e, s)
            | Inr after \<Rightarrow> invoke py (zig_build (fstring py after)) s) of
        (None, s') \<Rightarrow> (Inr None, s')
      | (Some e, s') \<Rightarrow>
          if is_Exception e
          then (Inr (Some (jsonify [(''message'', JString ''An error occurred''),
                                    (''error'', JString (str_exn py e))] 500)),
                py_print (''errored: '' @ str_exn py e) s')
          else (Inl e, s'))"

text \<open>The body of \<^verbatim>\<open>if data['ref'] == 'refs/heads/main':\<close>, statement by statement.\<close>

definition on_main ::
  "'w python \<Rightarrow> json \<Rightarrow> 'w state \<Rightarrow> (exn + http_response option) \<times> 'w state" where
  "on_main py data s =
     (case invoke py git_fetch (py_print ''fetching new changes'' s) of
        (Some e, s1) \<Rightarrow> (Inl e, s1)
      | (None, s1) \<Rightarrow>
          (case getitem data ''after'' of
             Inl e \<Rightarrow> (Inl e, s1)
           | Inr shown \<Rightarrow>
               (case getitem data ''after'' of
                  Inl e \<Rightarrow> (Inl e, py_print (''checking out new changes '' @ fstring py shown) s1)
                | Inr after \<Rightarrow>
                    (case invoke py (git_checkout after)
                            (py_print (''checking out new changes '' @ fstring py shown) s1) of
                       (Some e, s2) \<Rightarrow> (Inl e, s2)
                     | (None, s2) \<Rightarrow> try_build py data s2))))"

text \<open>
  \<^verbatim>\<open>def response()\<close>. A value compares equal to the \<^verbatim>\<open>str\<close>
  \<^verbatim>\<open>'refs/heads/main'\<close> exactly when it is that \<^verbatim>\<open>str\<close>. The result is the
  response returned, or the exception that leaves the function, and the state after.
\<close>

definition response ::
  "'w python \<Rightarrow> request \<Rightarrow> 'w state \<Rightarrow> (exn + http_response) \<times> 'w state" where
  "response py req s =
     (case get_json req of
        Inl e \<Rightarrow> (Inl e, s)
      | Inr data \<Rightarrow>
          (case getitem data ''ref'' of
             Inl e \<Rightarrow> (Inl e, s)
           | Inr r \<Rightarrow>
               (case (if r = JString ''refs/heads/main'' then on_main py data s
                      else (Inr None, s)) of
                  (Inl e, s') \<Rightarrow> (Inl e, s')
                | (Inr (Some early), s') \<Rightarrow> (Inr early, s')
                | (Inr None, s') \<Rightarrow> (Inr \<lparr>status = 200, body = Empty\<rparr>, s'))))"

subsection \<open>Example inputs\<close>

text \<open>
  A stand-in for the runtime whose world is the number of commands run so far: \<open>answer\<close>
  says which calls of \<^verbatim>\<open>subprocess.run\<close> raise, every exception prints as
  \<^verbatim>\<open>boom\<close>.
\<close>

definition mock :: "(call \<Rightarrow> exn option) \<Rightarrow> nat python" where
  "mock answer =
     \<lparr>subprocess_run = (\<lambda>c w. (answer c, Suc w)),
      format_value = (\<lambda>v. ''<value>''),
      str_exn = (\<lambda>e. ''boom'')\<rparr>"

definition succeed :: "call \<Rightarrow> exn option" where
  "succeed c = None"

definition fetch_fails :: "call \<Rightarrow> exn option" where
  "fetch_fails c = (if c = git_fetch then Some (CalledProcessError 128 c) else None)"


definition build_fails :: "call \<Rightarrow> exn option" where
  "build_fails c = (if shell c then Some (CalledProcessError 1 c) else None)"

text \<open>The payload of a push, with both keys and with \<^verbatim>\<open>ref\<close> alone.\<close>

definition push :: "string \<Rightarrow> string \<Rightarrow> request" where
  "push r after =
     \<lparr>get_json = Inr (JObject [(''ref'', JString r), (''after'', JString after)])\<rparr>"

definition push_no_after :: "string \<Rightarrow> request" where
  "push_no_after r = \<lparr>get_json = Inr (JObject [(''ref'', JString r)])\<rparr>"

definition fresh :: "nat state" where
  "fresh = \<lparr>world = 0, calls = [], stdout = []\<rparr>"

section \<open>Properties\<close>

lemmas handler_defs =
  response_def on_main_def try_build_def invoke_def py_print_def jsonify_def

lemma fstring_str: "fstring py (JString s) = s"
  by (simp add: fstring_def)

subsection \<open>The ignored branch\<close>

text \<open>
  C2: a payload whose \<^verbatim>\<open>ref\<close> is anything but \<^verbatim>\<open>refs/heads/main\<close> gets status 200
  with an empty body; the state is the one before, so no command is run (and nothing is
  printed).
\<close>

theorem other_ref_ignored:
  assumes "get_json req = Inr data"
      and "getitem data ''ref'' = Inr r"
      and "r \<noteq> JString ''refs/heads/main''"
    shows "response py req s = (Inr \<lparr>status = 200, body = Empty\<rparr>, s)"
  using assms by (simp add: response_def)

theorem other_ref_ignored_witness:
  "get_json (push ''refs/heads/develop'' ''abc123'') =
     Inr (JObject [(''ref'', JString ''refs/heads/develop''), (''after'', JString ''abc123'')])
   \<and> getitem (JObject [(''ref'', JString ''refs/heads/develop''),
                        (''after'', JString ''abc123'')]) ''ref''
       = Inr (JString ''refs/heads/develop'')
   \<and> JString ''refs/heads/develop'' \<noteq> JString ''refs/heads/main''
   \<and> response (mock succeed) (push ''refs/heads/develop'' ''abc123'') fresh
       = (Inr \<lparr>status = 200, body = Empty\<rparr>, \<lparr>world = 0, calls = [], stdout = []\<rparr>)"
  using other_ref_ignored
    [where req = "push ''refs/heads/develop'' ''abc123''"
       and data = "JObject [(''ref'', JString ''refs/heads/develop''),
                            (''after'', JString ''abc123'')]"
       and r = "JString ''refs/heads/develop''"
       and py = "mock succeed" and s = fresh]
  by (simp add: push_def fresh_def)

subsection \<open>The main branch\<close>



text \<open>
  C3: the payload is as in C1, the fetch and the checkout succeed, and the build raises an
  exception \<open>e\<close> that \<^verbatim>\<open>except Exception\<close> catches (\<open>CalledProcessError\<close> for an exit
  status that is not zero, \<open>OSError\<close> for a launch that failed). Then the handler returns
  status 500 with the JSON body whose \<^verbatim>\<open>message\<close> is \<^verbatim>\<open>An error occurred\<close> and whose
  \<^verbatim>\<open>error\<close> is \<^verbatim>\<open>str(e)\<close>.
\<close>

theorem build_failure_reported:
  assumes "get_json req = Inr data"
      and "getitem data ''ref'' = Inr (JString ''refs/heads/main'')"
      and "getitem data ''after'' = Inr after"
      and "subprocess_run py git_fetch (world s) = (None, w1)"
      and "subprocess_run py (git_checkout after) w1 = (None, w2)"
      and "subprocess_run py (zig_build (fstring py after)) w2 = (Some e, w3)"
      and "is_Exception e"
    shows "response py req s =
             (Inr \<lparr>status = 500,
                   body = Json [(''message'', JString ''An error occurred''),
                                (''error'', JString (str_exn py e))]\<rparr>,
              s\<lparr>world := w3,
                calls := calls s @ [git_fetch, git_checkout after, zig_build (fstring py after)],
                stdout := stdout s @ [''fetching new changes'',
                                      ''checking out new changes '' @ fstring py after,
                                      ''errored: '' @ str_exn py e]\<rparr>)"
  using assms by (simp add: handler_defs)

theorem build_failure_reported_witness:
  "subprocess_run (mock build_fails) git_fetch 0 = (None, 1)
   \<and> subprocess_run (mock build_fails) (git_checkout (JString ''deadbeef'')) 1 = (None, 2)
   \<and> subprocess_run (mock build_fails) (zig_build ''deadbeef'') 2
       = (Some (CalledProcessError 1 (zig_build ''deadbeef'')), 3)
   \<and> is_Exception (CalledProcessError 1 (zig_build ''deadbeef''))
   \<and> is_Exception (OSError ''No such file or directory'')
   \<and> response (mock build_fails) (push ''refs/heads/main'' ''deadbeef'') fresh =
       (Inr \<lparr>status = 500,
             body = Json [(''message'', JString ''An error occurred''),
                          (''error'', JString ''boom'')]\<rparr>,
        \<lparr>world = 3,
         calls = [git_fetch, git_checkout (JString ''deadbeef''), zig_build ''deadbeef''],
         stdout = [''fetching new changes'', ''checking out new changes deadbeef'',
                   ''errored: boom'']\<rparr>)"
  using build_failure_reported
    [where req = "push ''refs/heads/main'' ''deadbeef''"
       and data = "JObject [(''ref'', JString ''refs/heads/main''),
                            (''after'', JString ''deadbeef'')]"
       and after = "JString ''deadbeef''"
       and py = "mock build_fails" and s = fresh and ?w1.0 = 1 and ?w2.0 = 2 and ?w3.0 = 3
       and e = "CalledProcessError 1 (zig_build ''deadbeef'')"]
  by (simp add: push_def mock_def build_fails_def fresh_def fstring_def
        git_fetch_def git_checkout_def zig_build_def)



text \<open>
  C5: on the main branch, with a value \<open>after\<close> under \<^verbatim>\<open>after\<close>, the calls of
  \<^verbatim>\<open>subprocess.run\<close> are the first one, two or three of: \<^verbatim>\<open>['git', 'fetch', '--all']\<close>;
  \<^verbatim>\<open>['git', 'checkout', after]\<close>; and, through a shell, the one string made of the
  path of zig, \<^verbatim>\<open> build -Doptimize=ReleaseSafe benchmark -- gossip --telemetry=\<close> and the
  text of \<open>after\<close> (\<open>after\<close> itself when it is a \<^verbatim>\<open>str\<close>). All carry
  \<^verbatim>\<open>check=True\<close>. When a response is returned, all three have been made.
\<close>

theorem commands_shape:
  assumes "get_json req = Inr data"
      and "getitem data ''ref'' = Inr (JString ''refs/heads/main'')"
      and "getitem data ''after'' = Inr after"
    shows "\<exists>n. 1 \<le> n \<and> n \<le> 3
             \<and> calls (snd (response py req s)) =
                 calls s @ take n
                   [\<lparr>args = Argv [JString ''git'', JString ''fetch'', JString ''--all''],
                     check = True, shell = False\<rparr>,
                    \<lparr>args = Argv [JString ''git'', JString ''checkout'', after],
                     check = True, shell = False\<rparr>,
                    \<lparr>args = Command (''/home/ubuntu/zig-linux-x86_64-0.13.0/zig build -Doptimize=ReleaseSafe benchmark -- gossip --telemetry=''
                                      @ (case after of JString commit \<Rightarrow> commit
                                         | _ \<Rightarrow> format_value py after)),
                     check = True, shell = True\<rparr>]
             \<and> (\<forall>r. fst (response py req s) = Inr r \<longrightarrow> n = 3)"
proof -
  let ?cs = "[git_fetch, git_checkout after, zig_build (fstring py after)]"
  have "calls (snd (response py req s)) = calls s @ take 1 ?cs
          \<and> (\<forall>r. fst (response py req s) \<noteq> Inr r)
      \<or> calls (snd (response py req s)) = calls s @ take 2 ?cs
          \<and> (\<forall>r. fst (response py req s) \<noteq> Inr r)
      \<or> calls (snd (response py req s)) = calls s @ take 3 ?cs"
    using assms
    by (auto simp: handler_defs split: sum.splits option.splits prod.splits if_splits)
  then consider
      "calls (snd (response py req s)) = calls s @ take 1 ?cs"
      "\<forall>r. fst (response py req s) \<noteq> Inr r"
    | "calls (snd (response py req s)) = calls s @ take 2 ?cs"
      "\<forall>r. fst (response py req s) \<noteq> Inr r"
    | "calls (snd (response py req s)) = calls s @ take 3 ?cs"
    by blast
  then show ?thesis
  proof cases
    case 1
    then show ?thesis
      by (intro exI [of _ 1]) (simp add: git_fetch_def git_checkout_def zig_build_def fstring_def)
  next
    case 2
    then show ?thesis
      by (intro exI [of _ 2]) (simp add: git_fetch_def git_checkout_def zig_build_def fstring_def)
  next
    case 3
    then show ?thesis
      by (intro exI [of _ 3]) (simp add: git_fetch_def git_checkout_def zig_build_def fstring_def)
  qed
qed

theorem commands_shape_witness:
  "response (mock succeed) (push ''refs/heads/main'' ''deadbeef'') fresh =
     (Inr \<lparr>status = 200, body = Empty\<rparr>,
      \<lparr>world = 3,
       calls =
         [\<lparr>args = Argv [JString ''git'', JString ''fetch'', JString ''--all''],
           check = True, shell = False\<rparr>,
          \<lparr>args = Argv [JString ''git'', JString ''checkout'', JString ''deadbeef''],
           check = True, shell = False\<rparr>,
          \<lparr>args = Command ''/home/ubuntu/zig-linux-x86_64-0.13.0/zig build -Doptimize=ReleaseSafe benchmark -- gossip --telemetry=deadbeef'',
           check = True, shell = True\<rparr>],
       stdout = [''fetching new changes'', ''checking out new changes deadbeef'']\<rparr>)
   \<and> (\<exists>n. 1 \<le> n \<and> n \<le> 3
         \<and> calls (snd (response (mock succeed) (push ''refs/heads/main'' ''deadbeef'') fresh)) =
             take n
               [\<lparr>args = Argv [JString ''git'', JString ''fetch'', JString ''--all''],
                 check = True, shell = False\<rparr>,
                \<lparr>args = Argv [JString ''git'', JString ''checkout'', JString ''deadbeef''],
                 check = True, shell = False\<rparr>,
                \<lparr>args = Command ''/home/ubuntu/zig-linux-x86_64-0.13.0/zig build -Doptimize=ReleaseSafe benchmark -- gossip --telemetry=deadbeef'',
                 check = True, shell = True\<rparr>]
         \<and> n = 3)"
proof -
  have run: "response (mock succeed) (push ''refs/heads/main'' ''deadbeef'') fresh =
     (Inr \<lparr>status = 200, body = Empty\<rparr>,
      \<lparr>world = 3,
       calls =
         [\<lparr>args = Argv [JString ''git'', JString ''fetch'', JString ''--all''],
           check = True, shell = False\<rparr>,
          \<lparr>args = Argv [JString ''git'', JString ''checkout'', JString ''deadbeef''],
           check = True, shell = False\<rparr>,
          \<lparr>args = Command ''/home/ubuntu/zig-linux-x86_64-0.13.0/zig build -Doptimize=ReleaseSafe benchmark -- gossip --telemetry=deadbeef'',
           check = True, shell = True\<rparr>],
       stdout = [''fetching new changes'', ''checking out new changes deadbeef'']\<rparr>)"
    by (simp add: handler_defs mock_def succeed_def push_def fresh_def
          git_fetch_def git_checkout_def zig_build_def fstring_def)
  have "get_json (push ''refs/heads/main'' ''deadbeef'') =
          Inr (JObject [(''ref'', JString ''refs/heads/main''), (''after'', JString ''deadbeef'')])"
    by (simp add: push_def)
  from commands_shape [OF this, where after = "JString ''deadbeef''"
      and py = "mock succeed" and s = fresh]
  obtain n where "1 \<le> n" "n \<le> 3"
    "calls (snd (response (mock succeed) (push ''refs/heads/main'' ''deadbeef'') fresh)) =
       calls fresh @ take n
         [\<lparr>args = Argv [JString ''git'', JString ''fetch'', JString ''--all''],
           check = True, shell = False\<rparr>,
          \<lparr>args = Argv [JString ''git'', JString ''checkout'', JString ''deadbeef''],
           check = True, shell = False\<rparr>,
          \<lparr>args = Command ''/home/ubuntu/zig-linux-x86_64-0.13.0/zig build -Doptimize=ReleaseSafe benchmark -- gossip --telemetry=deadbeef'',
           check = True, shell = True\<rparr>]"
    "\<forall>r. fst (response (mock succeed) (push ''refs/heads/main'' ''deadbeef'') fresh) = Inr r
         \<longrightarrow> n = 3"
    by auto
  moreover from this(4) run have "n = 3"
    by simp
  ultimately show ?thesis
    using run by (auto simp: fresh_def)
qed

subsection \<open>Malformed payloads\<close>

text \<open>
  C8, as amended: the payload is a JSON object with \<^verbatim>\<open>ref\<close> equal to
  \<^verbatim>\<open>refs/heads/main\<close> and no key \<^verbatim>\<open>after\<close>. Then the handler calls
  \<^verbatim>\<open>subprocess.run\<close> exactly once, for the fetch, never for the checkout or the build,
  and returns no response; when the fetch succeeds, the exception that leaves the handler is
  the \<open>KeyError\<close> of reading \<^verbatim>\<open>after\<close>.
\<close>

theorem missing_after:
  assumes "get_json req = Inr (JObject d)"
      and "map_of d ''ref'' = Some (JString ''refs/heads/main'')"
      and "map_of d ''after'' = None"
    shows "calls (snd (response py req s)) = calls s @ [git_fetch]
         \<and> (\<exists>e. fst (response py req s) = Inl e)
         \<and> (\<forall>w1. subprocess_run py git_fetch (world s) = (None, w1) \<longrightarrow>
              response py req s =
                (Inl (KeyError ''after''),
                 s\<lparr>world := w1, calls := calls s @ [git_fetch],
                   stdout := stdout s @ [''fetching new changes'']\<rparr>))"
  using assms
  by (auto simp: handler_defs split: sum.splits option.splits prod.splits if_splits)

theorem missing_after_witness:
  "get_json (push_no_after ''refs/heads/main'') = Inr (JObject [(''ref'', JString ''refs/heads/main'')])
   \<and> map_of [(''ref'', JString ''refs/heads/main'')] ''ref'' = Some (JString ''refs/heads/main'')
   \<and> map_of [(''ref'', JString ''refs/heads/main'')] ''after'' = None
   \<and> subprocess_run (mock succeed) git_fetch 0 = (None, 1)
   \<and> response (mock succeed) (push_no_after ''refs/heads/main'') fresh =
       (Inl (KeyError ''after''),
        \<lparr>world = 1, calls = [git_fetch], stdout = [''fetching new changes'']\<rparr>)"
  using missing_after
    [where req = "push_no_after ''refs/heads/main''"
       and d = "[(''ref'', JString ''refs/heads/main'')]"
       and py = "mock succeed" and s = fresh]
  by (simp add: push_no_after_def mock_def succeed_def fresh_def)

text \<open>
  Without the condition on the fetch, C8 does not hold: for the same payload and a fetch
  that exits with status 128, the exception of the fetch leaves the handler and
  \<^verbatim>\<open>after\<close> is never read, so the fault is not a \<open>KeyError\<close>.
\<close>

theorem missing_after_fetch_fails:
  "get_json (push_no_after ''refs/heads/main'') = Inr (JObject [(''ref'', JString ''refs/heads/main'')])
   \<and> map_of [(''ref'', JString ''refs/heads/main'')] ''after'' = None
   \<and> response (mock fetch_fails) (push_no_after ''refs/heads/main'') fresh =
       (Inl (CalledProcessError 128 git_fetch),
        \<lparr>world = 1, calls = [git_fetch], stdout = [''fetching new changes'']\<rparr>)
   \<and> fst (response (mock fetch_fails) (push_no_after ''refs/heads/main'') fresh)
       \<noteq> Inl (KeyError ''after'')"
  by (simp add: handler_defs mock_def fetch_fails_def push_no_after_def fresh_def
        git_fetch_def)

text \<open>
  C9: when \<^verbatim>\<open>request.get_json()\<close> raises, when the payload is not a JSON object, and
  when it is an object without the key \<^verbatim>\<open>ref\<close>, an exception leaves the handler (the
  one of \<^verbatim>\<open>get_json\<close>, a \<open>TypeError\<close>, the \<open>KeyError\<close> of \<^verbatim>\<open>ref\<close>) and the
  state is the one before: no command is run, no response is returned.
\<close>

theorem missing_ref_faults:
  "(\<forall>e. get_json req = Inl e \<longrightarrow> response py req s = (Inl e, s))
   \<and> (\<forall>data. get_json req = Inr data \<and> (\<forall>d. data \<noteq> JObject d) \<longrightarrow>
         response py req s = (Inl TypeError, s))
   \<and> (\<forall>d. get_json req = Inr (JObject d) \<and> map_of d ''ref'' = None \<longrightarrow>
         response py req s = (Inl (KeyError ''ref''), s))"
proof -
  have "getitem data ''ref'' = Inl TypeError" if "\<forall>d. data \<noteq> JObject d" for data
    using that by (cases data) simp_all
  then show ?thesis
    by (auto simp: response_def)
qed

theorem missing_ref_faults_witness:
  "response (mock succeed) \<lparr>get_json = Inl (Exception ''BadRequest'')\<rparr> fresh
     = (Inl (Exception ''BadRequest''), fresh)
   \<and> (\<forall>d. JArray [JString ''refs/heads/main''] \<noteq> JObject d)
   \<and> response (mock succeed) \<lparr>get_json = Inr (JArray [JString ''refs/heads/main''])\<rparr> fresh
     = (Inl TypeError, fresh)
   \<and> map_of [(''after'', JString ''abc123'')] ''ref'' = None
   \<and> response (mock succeed) \<lparr>get_json = Inr (JObject [(''after'', JString ''abc123'')])\<rparr> fresh
     = (Inl (KeyError ''ref''), fresh)
   \<and> calls fresh = []"
  using missing_ref_faults
      [where req = "\<lparr>get_json = Inl (Exception ''BadRequest'')\<rparr>"
         and py = "mock succeed" and s = fresh]
    missing_ref_faults
      [where req = "\<lparr>get_json = Inr (JArray [JString ''refs/heads/main''])\<rparr>"
         and py = "mock succeed" and s = fresh]
    missing_ref_faults
      [where req = "\<lparr>get_json = Inr (JObject [(''after'', JString ''abc123'')])\<rparr>"
         and py = "mock succeed" and s = fresh]
  by (simp add: fresh_def)

subsection \<open>What the handler can return\<close>

text \<open>
  C10: a response returned by the handler is status 200 with an empty body, or status 500
  with a JSON body of exactly two keys, \<^verbatim>\<open>message\<close> (with the text
  \<^verbatim>\<open>An error occurred\<close>) and \<^verbatim>\<open>error\<close> (with a text).
\<close>

theorem returned_shapes:
  assumes "fst (response py req s) = Inr r"
    shows "r = \<lparr>status = 200, body = Empty\<rparr>
         \<or> (\<exists>text. r = \<lparr>status = 500,
                           body = Json [(''message'', JString ''An error occurred''),
                                        (''error'', JString text)]\<rparr>)"
  using assms
  by (auto simp: handler_defs split: sum.splits option.splits prod.splits if_splits)

theorem returned_shapes_witness:
  "fst (response (mock build_fails) (push ''refs/heads/main'' ''deadbeef'') fresh) =
     Inr \<lparr>status = 500,
          body = Json [(''message'', JString ''An error occurred''),
                       (''error'', JString ''boom'')]\<rparr>
   \<and> (\<lparr>status = 500,
        body = Json [(''message'', JString ''An error occurred''),
                     (''error'', JString ''boom'')]\<rparr> = \<lparr>status = 200, body = Empty\<rparr>
      \<or> (\<exists>text. \<lparr>status = 500,
                   body = Json [(''message'', JString ''An error occurred''),
                                (''error'', JString ''boom'')]\<rparr> =
                 \<lparr>status = 500,
                   body = Json [(''message'', JString ''An error occurred''),
                                (''error'', JString text)]\<rparr>))"
proof -
  have run: "fst (response (mock build_fails) (push ''refs/heads/main'' ''deadbeef'') fresh) =
     Inr \<lparr>status = 500,
          body = Json [(''message'', JString ''An error occurred''),
                       (''error'', JString ''boom'')]\<rparr>"
    by (simp add: handler_defs mock_def build_fails_def push_def fresh_def
          git_fetch_def git_checkout_def zig_build_def fstring_def)
  from returned_shapes [OF run] run show ?thesis
    by blast
qed

subsection \<open>No state of its own\<close>

lemma invoke_agree:
  assumes "\<forall>c w w'. fst (subprocess_run py c w) = fst (subprocess_run py c w')"
      and "calls s = calls s'" and "stdout s = stdout s'"
    shows "fst (invoke py c s) = fst (invoke py c s')
         \<and> calls (snd (invoke py c s)) = calls (snd (invoke py c s'))
         \<and> stdout (snd (invoke py c s)) = stdout (snd (invoke py c s'))"
proof -
  have "fst (subprocess_run py c (world s)) = fst (subprocess_run py c (world s'))"
    using assms(1) by blast
  with assms(2,3) show ?thesis
    by (auto simp: invoke_def split: prod.splits)
qed

lemma try_build_agree:
  assumes "\<forall>c w w'. fst (subprocess_run py c w) = fst (subprocess_run py c w')"
      and "calls s = calls s'" and "stdout s = stdout s'"
    shows "fst (try_build py data s) = fst (try_build py data s')
         \<and> calls (snd (try_build py data s)) = calls (snd (try_build py data s'))
         \<and> stdout (snd (try_build py data s)) = stdout (snd (try_build py data s'))"
proof (cases "getitem data ''after''")
  case (Inl e)
  with assms(2,3) show ?thesis
    by (simp add: try_build_def py_print_def)
next
  case (Inr after)
  obtain r t where run: "invoke py (zig_build (fstring py after)) s = (r, t)"
    by (cases "invoke py (zig_build (fstring py after)) s")
  obtain r' t' where run': "invoke py (zig_build (fstring py after)) s' = (r', t')"
    by (cases "invoke py (zig_build (fstring py after)) s'")
  from invoke_agree [OF assms, of "zig_build (fstring py after)"] run run'
  have "r' = r" and "calls t = calls t'" and "stdout t = stdout t'"
    by simp_all
  with Inr run run' show ?thesis
    by (simp add: try_build_def py_print_def split: option.splits)
qed

lemma on_main_agree:
  assumes "\<forall>c w w'. fst (subprocess_run py c w) = fst (subprocess_run py c w')"
      and "calls s = calls s'" and "stdout s = stdout s'"
    shows "fst (on_main py data s) = fst (on_main py data s')
         \<and> calls (snd (on_main py data s)) = calls (snd (on_main py data s'))
         \<and> stdout (snd (on_main py data s)) = stdout (snd (on_main py data s'))"
proof -
  let ?p = "py_print ''fetching new changes'' s" and ?p' = "py_print ''fetching new changes'' s'"
  obtain r t where run: "invoke py git_fetch ?p = (r, t)"
    by (cases "invoke py git_fetch ?p")
  obtain r' t' where run': "invoke py git_fetch ?p' = (r', t')"
    by (cases "invoke py git_fetch ?p'")
  have p: "calls ?p = calls ?p'" "stdout ?p = stdout ?p'"
    using assms(2,3) by (simp_all add: py_print_def)
  from invoke_agree [OF assms(1) p, of git_fetch] run run'
  have fetch: "r' = r" "calls t = calls t'" "stdout t = stdout t'"
    by simp_all
  show ?thesis
  proof (cases r)
    case (Some e)
    with fetch run run' show ?thesis
      by (simp add: on_main_def)
  next
    case None
    show ?thesis
    proof (cases "getitem data ''after''")
      case (Inl e)
      with None fetch run run' show ?thesis
        by (simp add: on_main_def)
    next
      case (Inr after)
      let ?q = "py_print (''checking out new changes '' @ fstring py after) t"
      let ?q' = "py_print (''checking out new changes '' @ fstring py after) t'"
      obtain r2 u where co: "invoke py (git_checkout after) ?q = (r2, u)"
        by (cases "invoke py (git_checkout after) ?q")
      obtain r2' u' where co': "invoke py (git_checkout after) ?q' = (r2', u')"
        by (cases "invoke py (git_checkout after) ?q'")
      have q: "calls ?q = calls ?q'" "stdout ?q = stdout ?q'"
        using fetch by (simp_all add: py_print_def)
      from invoke_agree [OF assms(1) q, of "git_checkout after"] co co'
      have checkout: "r2' = r2" "calls u = calls u'" "stdout u = stdout u'"
        by simp_all
      show ?thesis
      proof (cases r2)
        case (Some e)
        with None Inr fetch run run' checkout co co' show ?thesis
          by (simp add: on_main_def)
      next
        case None2: None
        from try_build_agree [OF assms(1) checkout(2,3), of data]
        show ?thesis
          using None None2 Inr fetch run run' checkout co co'
          by (simp add: on_main_def)
      qed
    qed
  qed
qed

lemma response_agree:
  assumes "\<forall>c w w'. fst (subprocess_run py c w) = fst (subprocess_run py c w')"
      and "calls s = calls s'" and "stdout s = stdout s'"
    shows "fst (response py req s) = fst (response py req s')
         \<and> calls (snd (response py req s)) = calls (snd (response py req s'))
         \<and> stdout (snd (response py req s)) = stdout (snd (response py req s'))"
proof (cases "get_json req")
  case (Inl e)
  with assms(2,3) show ?thesis
    by (simp add: response_def)
next
  case data: (Inr data)
  show ?thesis
  proof (cases "getitem data ''ref''")
    case (Inl e)
    with data assms(2,3) show ?thesis
      by (simp add: response_def)
  next
    case (Inr r)
    show ?thesis
    proof (cases "r = JString ''refs/heads/main''")
      case False
      with data Inr assms(2,3) show ?thesis
        by (simp add: response_def)
    next
      case True
      obtain o1 t where m: "on_main py data s = (o1, t)"
        by (cases "on_main py data s")
      obtain o1' t' where m': "on_main py data s' = (o1', t')"
        by (cases "on_main py data s'")
      from on_main_agree [OF assms, of data] m m'
      have "o1' = o1" "calls t = calls t'" "stdout t = stdout t'"
        by simp_all
      with data Inr True m m' show ?thesis
        by (simp add: response_def split: sum.splits option.splits)
    qed
  qed
qed

text \<open>
  The handler never reads what was recorded: from a state with earlier records it does what
  it does from the same world with none, and adds its records after the earlier ones.
\<close>

lemma response_frame:
  "fst (response py req s) = fst (response py req (s\<lparr>calls := [], stdout := []\<rparr>))
   \<and> calls (snd (response py req s))
       = calls s @ calls (snd (response py req (s\<lparr>calls := [], stdout := []\<rparr>)))
   \<and> stdout (snd (response py req s))
       = stdout s @ stdout (snd (response py req (s\<lparr>calls := [], stdout := []\<rparr>)))"
  by (auto simp: handler_defs split: sum.splits option.splits prod.splits if_splits)

text \<open>
  C6: take a runtime whose \<^verbatim>\<open>subprocess.run\<close> answers each command the same way in
  every world (a mock), and any two states \<open>s\<close> and \<open>s'\<close>: different worlds, different
  records of earlier calls and lines; \<open>s'\<close> may be the state a first invocation from \<open>s\<close>
  has left. For the same request the handler gives, from both, the same response or
  exception, and adds the same sequence of calls and the same printed lines.
\<close>

theorem handler_deterministic:
  assumes "\<forall>c w w'. fst (subprocess_run py c w) = fst (subprocess_run py c w')"
    shows "fst (response py req s) = fst (response py req s')
         \<and> (\<exists>cs out.
               calls (snd (response py req s)) = calls s @ cs
             \<and> calls (snd (response py req s')) = calls s' @ cs
             \<and> stdout (snd (response py req s)) = stdout s @ out
             \<and> stdout (snd (response py req s')) = stdout s' @ out)"
proof -
  let ?r = "s\<lparr>calls := [], stdout := []\<rparr>" and ?r' = "s'\<lparr>calls := [], stdout := []\<rparr>"
  have same: "fst (response py req ?r) = fst (response py req ?r')"
    "calls (snd (response py req ?r)) = calls (snd (response py req ?r'))"
    "stdout (snd (response py req ?r)) = stdout (snd (response py req ?r'))"
    using response_agree [OF assms, of ?r ?r' req] by simp_all
  have "fst (response py req s) = fst (response py req s')"
    using response_frame [of py req s] response_frame [of py req s'] same(1) by simp
  moreover have "calls (snd (response py req s)) = calls s @ calls (snd (response py req ?r))"
    "stdout (snd (response py req s)) = stdout s @ stdout (snd (response py req ?r))"
    using response_frame [of py req s] by simp_all
  moreover have "calls (snd (response py req s')) = calls s' @ calls (snd (response py req ?r))"
    "stdout (snd (response py req s')) = stdout s' @ stdout (snd (response py req ?r))"
    using response_frame [of py req s'] same(2,3) by simp_all
  ultimately show ?thesis
    by blast
qed

text \<open>
  Two invocations in a row, the second from the state the first has left (its world is 3, its
  records hold the three calls and the three lines of the first): status 500 both times, and
  the second adds the same three calls after those of the first.
\<close>

theorem handler_deterministic_witness:
  "(\<forall>c w w'. fst (subprocess_run (mock build_fails) c w)
               = fst (subprocess_run (mock build_fails) c w'))
   \<and> response (mock build_fails) (push ''refs/heads/main'' ''deadbeef'') fresh =
       (Inr \<lparr>status = 500,
             body = Json [(''message'', JString ''An error occurred''),
                          (''error'', JString ''boom'')]\<rparr>,
        \<lparr>world = 3,
         calls = [git_fetch, git_checkout (JString ''deadbeef''), zig_build ''deadbeef''],
         stdout = [''fetching new changes'', ''checking out new changes deadbeef'',
                   ''errored: boom'']\<rparr>)
   \<and> fst (response (mock build_fails) (push ''refs/heads/main'' ''deadbeef'')
            (snd (response (mock build_fails) (push ''refs/heads/main'' ''deadbeef'') fresh)))
       = Inr \<lparr>status = 500,
              body = Json [(''message'', JString ''An error occurred''),
                           (''error'', JString ''boom'')]\<rparr>
   \<and> calls (snd (response (mock build_fails) (push ''refs/heads/main'' ''deadbeef'')
                   (snd (response (mock build_fails) (push ''refs/heads/main'' ''deadbeef'')
                           fresh))))
       = [git_fetch, git_checkout (JString ''deadbeef''), zig_build ''deadbeef'',
          git_fetch, git_checkout (JString ''deadbeef''), zig_build ''deadbeef'']
   \<and> stdout (snd (response (mock build_fails) (push ''refs/heads/main'' ''deadbeef'')
                    (snd (response (mock build_fails) (push ''refs/heads/main'' ''deadbeef'')
                            fresh))))
       = [''fetching new changes'', ''checking out new changes deadbeef'', ''errored: boom'',
          ''fetching new changes'', ''checking out new changes deadbeef'', ''errored: boom'']"
proof -
  let ?run = "response (mock build_fails) (push ''refs/heads/main'' ''deadbeef'')"
  have mock: "\<forall>c w w'. fst (subprocess_run (mock build_fails) c w)
                        = fst (subprocess_run (mock build_fails) c w')"
    by (simp add: mock_def)
  have first: "?run fresh =
       (Inr \<lparr>status = 500,
             body = Json [(''message'', JString ''An error occurred''),
                          (''error'', JString ''boom'')]\<rparr>,
        \<lparr>world = 3,
         calls = [git_fetch, git_checkout (JString ''deadbeef''), zig_build ''deadbeef''],
         stdout = [''fetching new changes'', ''checking out new changes deadbeef'',
                   ''errored: boom'']\<rparr>)"
    by (simp add: handler_defs mock_def build_fails_def push_def fresh_def
          git_fetch_def git_checkout_def zig_build_def fstring_def)
  from handler_deterministic [OF mock, of "push ''refs/heads/main'' ''deadbeef''" fresh
      "snd (?run fresh)"]
  obtain cs out where again: "fst (?run fresh) = fst (?run (snd (?run fresh)))"
    and "calls (snd (?run fresh)) = calls fresh @ cs"
    and "calls (snd (?run (snd (?run fresh)))) = calls (snd (?run fresh)) @ cs"
    and "stdout (snd (?run fresh)) = stdout fresh @ out"
    and "stdout (snd (?run (snd (?run fresh)))) = stdout (snd (?run fresh)) @ out"
    by blast
  then have "calls (snd (?run (snd (?run fresh)))) = calls (snd (?run fresh)) @ calls (snd (?run fresh))"
    and "stdout (snd (?run (snd (?run fresh)))) = stdout (snd (?run fresh)) @ stdout (snd (?run fresh))"
    by (simp_all add: fresh_def)
  with again [symmetric] mock first show ?thesis
    by simp
qed

end
